theory Spec2Isabelle
  imports Main "HOL-Library.Multiset"
begin

section \<open>Python strings\<close>

text \<open>
  A Python \<open>str\<close> is a sequence of code points. It is modelled as a \<open>string\<close>: the
  \<open>char\<close> numbered \<open>n\<close> stands for the code point \<open>n\<close>, so the texts of the model are the
  texts all of whose code points are below 256. On these, the character classes below are
  the ones of CPython: \<open>str.isspace\<close>, the line boundaries of \<open>str.splitlines\<close>, and the
  decimal digits accepted by \<open>int\<close>.
\<close>

definition isspace :: "char \<Rightarrow> bool" where
  "isspace c = (let n = (of_char c :: nat) in
     (9 \<le> n \<and> n \<le> 13) \<or> (28 \<le> n \<and> n \<le> 32) \<or> n = 133 \<or> n = 160)"

definition is_linebreak :: "char \<Rightarrow> bool" where
  "is_linebreak c = (let n = (of_char c :: nat) in
     (10 \<le> n \<and> n \<le> 13) \<or> (28 \<le> n \<and> n \<le> 30) \<or> n = 133)"

definition isdigit :: "char \<Rightarrow> bool" where
  "isdigit c = (let n = (of_char c :: nat) in 48 \<le> n \<and> n \<le> 57)"

definition digit_value :: "char \<Rightarrow> nat" where
  "digit_value c = of_char c - 48"

text \<open>\<open>s.strip()\<close>: the whitespace at both ends is removed.\<close>

definition strip :: "string \<Rightarrow> string" where
  "strip s = rev (dropWhile isspace (rev (dropWhile isspace s)))"

text \<open>\<open>s.startswith(p)\<close>.\<close>

definition startswith :: "string \<Rightarrow> string \<Rightarrow> bool" where
  "startswith s p = (take (length p) s = p)"

text \<open>
  \<open>s.splitlines()\<close>: the text is cut at every line boundary; a carriage return
  followed by a line feed is one boundary; a boundary at the very end opens no further line.
\<close>

definition after_break :: "string \<Rightarrow> string" where
  "after_break rest = (case rest of
       [] \<Rightarrow> []
     | c # r \<Rightarrow> (if c = CHR 0x0D then (case r of [] \<Rightarrow> [] | d # r' \<Rightarrow> if d = CHR 0x0A then r' else r)
                else r))"

lemma length_after_break: "length (after_break (dropWhile P s)) \<le> length s - 1"
proof (cases "dropWhile P s")
  case Nil
  show ?thesis unfolding Nil after_break_def by simp
next
  case (Cons c r)
  have "length (dropWhile P s) \<le> length s" by (rule length_dropWhile_le)
  with Cons have "length r < length s" by simp
  with Cons show ?thesis by (auto simp: after_break_def split: list.splits)
qed

function splitlines :: "string \<Rightarrow> string list" where
  "splitlines s = (if s = [] then []
     else takeWhile (\<lambda>c. \<not> is_linebreak c) s
          # splitlines (after_break (dropWhile (\<lambda>c. \<not> is_linebreak c) s)))"
  by pat_completeness auto
termination
proof (relation "measure length")
  show "wf (measure length)" by simp
next
  fix s :: string
  assume "s \<noteq> []"
  then have "0 < length s" by simp
  moreover have "length (after_break (dropWhile (\<lambda>c. \<not> is_linebreak c) s)) \<le> length s - 1"
    by (rule length_after_break)
  ultimately have "length (after_break (dropWhile (\<lambda>c. \<not> is_linebreak c) s)) < length s"
    by arith
  then show "(after_break (dropWhile (\<lambda>c. \<not> is_linebreak c) s), s) \<in> measure length"
    by simp
qed

declare splitlines.simps [simp del]

text \<open>\<open>s.split(":", 1)\<close>: at most one cut, at the first colon.\<close>

definition split_colon1 :: "string \<Rightarrow> string list" where
  "split_colon1 s = (if CHR '':'' \<in> set s
     then [takeWhile (\<lambda>c. c \<noteq> CHR '':'') s, tl (dropWhile (\<lambda>c. c \<noteq> CHR '':'') s)]
     else [s])"

datatype py_error = ValueError | IndexError | NotADirectoryError | IsADirectoryError
  | PermissionError | OSError

text \<open>\<open>xs[i]\<close> for an index that is not negative.\<close>

definition getitem :: "'a list \<Rightarrow> nat \<Rightarrow> py_error + 'a" where
  "getitem xs i = (if i < length xs then Inr (xs ! i) else Inl IndexError)"


section \<open>\<open>int(s)\<close> on a string\<close>

text \<open>
  \<open>int\<close> skips the whitespace at both ends (of the characters below 256: tab to carriage
  return, the space, and the two non-ASCII spaces, which CPython first rewrites to a
  space), accepts one sign, and then wants decimal digits, where single underscores may
  stand between two digits. Everything else raises \<open>ValueError\<close>. So does a literal of
  more digits than the interpreter's limit \<open>lim\<close> (\<open>sys.get_int_max_str_digits()\<close>, 4300
  unless configured; 0 switches the check off, and literals of up to 640 digits are never
  checked).
\<close>

definition int_space :: "char \<Rightarrow> bool" where
  "int_space c = (let n = (of_char c :: nat) in
     (9 \<le> n \<and> n \<le> 13) \<or> n = 32 \<or> n = 133 \<or> n = 160)"

fun no_double_underscore :: "string \<Rightarrow> bool" where
  "no_double_underscore (a # b # r) =
     (\<not> (a = CHR ''_'' \<and> b = CHR ''_'') \<and> no_double_underscore (b # r))"
| "no_double_underscore r = True"

definition digits_value :: "string \<Rightarrow> nat" where
  "digits_value ds = foldl (\<lambda>a c. 10 * a + digit_value c) 0 ds"

definition too_many_digits :: "nat \<Rightarrow> nat \<Rightarrow> bool" where
  "too_many_digits lim n = (640 < n \<and> 0 < lim \<and> lim < n)"

definition py_int :: "nat \<Rightarrow> string \<Rightarrow> py_error + int" where
  "py_int lim s =
     (let s1 = dropWhile int_space s;
          neg = (s1 \<noteq> [] \<and> hd s1 = CHR ''-'');
          s2 = (if s1 \<noteq> [] \<and> (hd s1 = CHR ''+'' \<or> hd s1 = CHR ''-'') then tl s1 else s1);
          body = takeWhile (\<lambda>c. isdigit c \<or> c = CHR ''_'') s2;
          rest = dropWhile (\<lambda>c. isdigit c \<or> c = CHR ''_'') s2;
          ds = filter isdigit body
      in if body = [] \<or> hd body = CHR ''_'' \<or> last body = CHR ''_''
            \<or> \<not> no_double_underscore body
            \<or> too_many_digits lim (length ds)
            \<or> dropWhile int_space rest \<noteq> []
         then Inl ValueError
         else Inr (if neg then - int (digits_value ds) else int (digits_value ds)))"

section \<open>The record parser\<close>

text \<open>The class \<open>Player\<close>; the dictionary \<open>data\<close> of the parser has the same five keys.\<close>

record player =
  name :: string
  class_id :: int
  level :: int
  xp :: int
  gold :: int

definition init_data :: player where
  "init_data = \<lparr>name = [], class_id = 0, level = 0, xp = 0, gold = 0\<rparr>"

text \<open>The expression \<open>int(line.split(":", 1)[1].strip())\<close>.\<close>

definition field_int :: "nat \<Rightarrow> string \<Rightarrow> py_error + int" where
  "field_int lim line = (case getitem (split_colon1 line) 1 of
       Inl e \<Rightarrow> Inl e
     | Inr v \<Rightarrow> py_int lim (strip v))"

text \<open>
  \<open>try: data[k] = e  except (E1, ...): pass\<close>: an exception among the caught ones leaves
  the dictionary as it was, any other one goes on to the caller.
\<close>

definition try_assign ::
  "(int \<Rightarrow> player) \<Rightarrow> py_error + int \<Rightarrow> py_error list \<Rightarrow> player \<Rightarrow> py_error + player" where
  "try_assign upd e caught d = (case e of
       Inr n \<Rightarrow> Inr (upd n)
     | Inl err \<Rightarrow> if err \<in> set caught then Inr d else Inl err)"

text \<open>The body of the loop over the lines (lines 59 to 82 of the source).\<close>

definition parse_line :: "nat \<Rightarrow> player \<Rightarrow> string \<Rightarrow> py_error + player" where
  "parse_line lim d raw =
     (let line = strip raw in
      if startswith line ''Name:'' then
        (case getitem (split_colon1 line) 1 of
           Inl e \<Rightarrow> Inl e
         | Inr v \<Rightarrow> Inr (d\<lparr>name := strip v\<rparr>))
      else if startswith line ''Clas:'' then
        try_assign (\<lambda>n. d\<lparr>class_id := n\<rparr>) (field_int lim line) [ValueError] d
      else if startswith line ''Levl:'' then
        try_assign (\<lambda>n. d\<lparr>level := n\<rparr>) (field_int lim line) [ValueError] d
      else if startswith line ''Exp '' then
        try_assign (\<lambda>n. d\<lparr>xp := n\<rparr>) (field_int lim line) [ValueError, IndexError] d
      else if startswith line ''Gold:'' then
        try_assign (\<lambda>n. d\<lparr>gold := n\<rparr>) (field_int lim line) [ValueError] d
      else Inr d)"

fun parse_lines :: "nat \<Rightarrow> player \<Rightarrow> string list \<Rightarrow> py_error + player" where
  "parse_lines lim d [] = Inr d"
| "parse_lines lim d (l # ls) = (case parse_line lim d l of
       Inl e \<Rightarrow> Inl e
     | Inr d' \<Rightarrow> parse_lines lim d' ls)"

text \<open>
  Lines 50 to 87: the parse of the text of a file. \<open>None\<close> is Python's \<open>None\<close>, returned
  when the name is empty.
\<close>

definition parse_content :: "nat \<Rightarrow> string \<Rightarrow> py_error + player option" where
  "parse_content lim content = (case parse_lines lim init_data (splitlines content) of
       Inl e \<Rightarrow> Inl e
     | Inr d \<Rightarrow> Inr (if name d = [] then None else Some d))"



section \<open>The class catalogue\<close>

text \<open>
  The icons and the titles of the reports hold code points above 255, so the texts that
  are only printed are lists of code points, each given by its number.
\<close>

type_synonym ustring = "nat list"


definition CLASS_NAMES :: "(int \<times> string) list" where
  "CLASS_NAMES = [(0, ''Magic User''), (1, ''Cleric''), (2, ''Thief''), (3, ''Warrior'')]"

definition CLASS_ICONS :: "(int \<times> ustring) list" where
  "CLASS_ICONS = [(0, [0x1F52E]), (1, [0x271D, 0xFE0F]), (2, [0x1F5E1, 0xFE0F]),
     (3, [0x2694, 0xFE0F])]"

text \<open>\<open>d.get(k, default)\<close> on a dictionary given by its items.\<close>

definition dict_get :: "('k \<times> 'v) list \<Rightarrow> 'k \<Rightarrow> 'v \<Rightarrow> 'v" where
  "dict_get d k dflt = (case map_of d k of Some v \<Rightarrow> v | None \<Rightarrow> dflt)"

definition class_name :: "player \<Rightarrow> string" where
  "class_name p = dict_get CLASS_NAMES (class_id p) ''Unknown''"

definition class_icon :: "player \<Rightarrow> ustring" where
  "class_icon p = dict_get CLASS_ICONS (class_id p) [0x2753]"

section \<open>The collector\<close>

text \<open>
  The part of the file system below a path: a file, with what reading it as text does;
  a directory that can be listed, with its entries by name in the order in which the
  system lists them; or a directory that exists and cannot be listed, because access to
  it is denied.
\<close>

datatype node = File "py_error + string" | Dir "(string \<times> node) list" | Locked_Dir



fun read_text :: "node \<Rightarrow> py_error + string" where
  "read_text (File r) = r"
| "read_text (Dir entries) = Inl IsADirectoryError"
| "read_text Locked_Dir = Inl PermissionError"

definition endswith :: "string \<Rightarrow> string \<Rightarrow> bool" where
  "endswith s p = (length p \<le> length s \<and> drop (length s - length p) s = p)"





section \<open>Ranking and reporting\<close>
























section \<open>The entry point\<close>



section \<open>What a line and a text mean\<close>

text \<open>
  The words of the specification about lines: the value of a \<open>Key: value\<close> line is what
  follows its first colon, trimmed; a line is a name line when, trimmed, it starts with
  \<open>Name:\<close>; a line carries an integer for a key when, trimmed, it starts with the key and
  its value is an integer for \<open>int\<close>. A text in which every line ends with a line feed
  is the concatenation of its lines.
\<close>

definition line_value :: "string \<Rightarrow> string" where
  "line_value s = strip (tl (dropWhile (\<lambda>c. c \<noteq> CHR '':'') s))"

definition name_of_line :: "string \<Rightarrow> string option" where
  "name_of_line l = (if startswith (strip l) ''Name:'' then Some (line_value (strip l)) else None)"

definition int_of_line :: "nat \<Rightarrow> string \<Rightarrow> string \<Rightarrow> int option" where
  "int_of_line lim key l =
     (if startswith (strip l) key \<and> CHR '':'' \<in> set (strip l)
      then (case py_int lim (line_value (strip l)) of Inr n \<Rightarrow> Some n | Inl e \<Rightarrow> None)
      else None)"

definition last_value :: "'a \<Rightarrow> 'a list \<Rightarrow> 'a" where
  "last_value dflt vs = (if vs = [] then dflt else last vs)"

definition line_update :: "nat \<Rightarrow> player \<Rightarrow> string \<Rightarrow> player" where
  "line_update lim d l =
     \<lparr>name = (case name_of_line l of Some v \<Rightarrow> v | None \<Rightarrow> name d),
      class_id = (case int_of_line lim ''Clas:'' l of Some n \<Rightarrow> n | None \<Rightarrow> class_id d),
      level = (case int_of_line lim ''Levl:'' l of Some n \<Rightarrow> n | None \<Rightarrow> level d),
      xp = (case int_of_line lim ''Exp '' l of Some n \<Rightarrow> n | None \<Rightarrow> xp d),
      gold = (case int_of_line lim ''Gold:'' l of Some n \<Rightarrow> n | None \<Rightarrow> gold d)\<rparr>"

definition lines_record :: "nat \<Rightarrow> player \<Rightarrow> string list \<Rightarrow> player" where
  "lines_record lim d ls =
     \<lparr>name = last_value (name d) (List.map_filter name_of_line ls),
      class_id = last_value (class_id d) (List.map_filter (int_of_line lim ''Clas:'') ls),
      level = last_value (level d) (List.map_filter (int_of_line lim ''Levl:'') ls),
      xp = last_value (xp d) (List.map_filter (int_of_line lim ''Exp '') ls),
      gold = last_value (gold d) (List.map_filter (int_of_line lim ''Gold:'') ls)\<rparr>"

definition no_linebreak :: "string \<Rightarrow> bool" where
  "no_linebreak l = list_all (\<lambda>c. \<not> is_linebreak c) l"

definition joinlines :: "string list \<Rightarrow> string" where
  "joinlines ls = concat (map (\<lambda>l. l @ ''\<newline>'') ls)"


section \<open>Lemmas on strings and lines\<close>

lemmas eval_defs = parse_content_def parse_line_def strip_def isspace_def startswith_def
  is_linebreak_def after_break_def split_colon1_def getitem_def field_int_def try_assign_def
  py_int_def int_space_def isdigit_def digits_value_def digit_value_def too_many_digits_def
  init_data_def splitlines.simps

lemma startswith_iff: "startswith s p \<longleftrightarrow> (\<exists>r. s = p @ r)"
  unfolding startswith_def by (metis append_eq_conv_conj append_take_drop_id)

lemma if_Inl: "(if c then Inl a else Inr x) = Inl e \<Longrightarrow> e = a"
  by (simp split: if_splits)

lemma py_int_error:
  assumes "py_int lim s = Inl e"
  shows "e = ValueError"
  by (rule if_Inl[OF assms[unfolded py_int_def Let_def]])

lemma field_int_colon:
  "CHR '':'' \<in> set s \<Longrightarrow> field_int lim s = py_int lim (line_value s)"
  by (simp add: field_int_def split_colon1_def getitem_def line_value_def)

lemma field_int_no_colon:
  "CHR '':'' \<notin> set s \<Longrightarrow> field_int lim s = Inl IndexError"
  by (simp add: field_int_def split_colon1_def getitem_def)

lemma int_of_line_field_int:
  "int_of_line lim key l = (if startswith (strip l) key
     then (case field_int lim (strip l) of Inr n \<Rightarrow> Some n | Inl e \<Rightarrow> None) else None)"
  by (cases "CHR '':'' \<in> set (strip l)")
     (simp_all add: int_of_line_def field_int_colon field_int_no_colon)

lemma colon_key: "startswith s (k @ '':'') \<Longrightarrow> CHR '':'' \<in> set s"
  by (auto simp: startswith_iff)

lemma getitem_name:
  "startswith s ''Name:'' \<Longrightarrow>
     getitem (split_colon1 s) (Suc 0) = Inr (tl (dropWhile (\<lambda>c. c \<noteq> CHR '':'') s))"
  using colon_key[of s "''Name''"] by (simp add: split_colon1_def getitem_def)

lemma prefixes_apart:
  "startswith s ''Name:'' \<Longrightarrow> \<not> startswith s ''Clas:''"
  "startswith s ''Name:'' \<Longrightarrow> \<not> startswith s ''Levl:''"
  "startswith s ''Name:'' \<Longrightarrow> \<not> startswith s ''Exp ''"
  "startswith s ''Name:'' \<Longrightarrow> \<not> startswith s ''Gold:''"
  "startswith s ''Clas:'' \<Longrightarrow> \<not> startswith s ''Levl:''"
  "startswith s ''Clas:'' \<Longrightarrow> \<not> startswith s ''Exp ''"
  "startswith s ''Clas:'' \<Longrightarrow> \<not> startswith s ''Gold:''"
  "startswith s ''Levl:'' \<Longrightarrow> \<not> startswith s ''Exp ''"
  "startswith s ''Levl:'' \<Longrightarrow> \<not> startswith s ''Gold:''"
  "startswith s ''Exp '' \<Longrightarrow> \<not> startswith s ''Gold:''"
  by (auto simp: startswith_iff)

lemma try_assign_int:
  "ValueError \<in> set caught \<Longrightarrow> try_assign upd (py_int lim v) caught d =
     Inr (case py_int lim v of Inr n \<Rightarrow> upd n | Inl e \<Rightarrow> d)"
  by (auto simp: try_assign_def split: sum.splits dest: py_int_error)

text \<open>One line never raises, and changes the fields as its meaning says.\<close>

lemma parse_line_update: "parse_line lim d l = Inr (line_update lim d l)"
proof -
  let ?s = "strip l"
  consider (nm) "startswith ?s ''Name:''"
    | (cl) "\<not> startswith ?s ''Name:''" "startswith ?s ''Clas:''"
    | (lv) "\<not> startswith ?s ''Name:''" "\<not> startswith ?s ''Clas:''" "startswith ?s ''Levl:''"
    | (ex) "\<not> startswith ?s ''Name:''" "\<not> startswith ?s ''Clas:''" "\<not> startswith ?s ''Levl:''"
           "startswith ?s ''Exp ''"
    | (gd) "\<not> startswith ?s ''Name:''" "\<not> startswith ?s ''Clas:''" "\<not> startswith ?s ''Levl:''"
           "\<not> startswith ?s ''Exp ''" "startswith ?s ''Gold:''"
    | (no) "\<not> startswith ?s ''Name:''" "\<not> startswith ?s ''Clas:''" "\<not> startswith ?s ''Levl:''"
           "\<not> startswith ?s ''Exp ''" "\<not> startswith ?s ''Gold:''"
    by blast
  then show ?thesis
  proof cases
    case nm
    then show ?thesis
      by (simp add: parse_line_def line_update_def name_of_line_def int_of_line_def
          getitem_name prefixes_apart line_value_def)
  next
    case cl
    moreover from cl have "CHR '':'' \<in> set ?s" using colon_key[of ?s "''Clas''"] by simp
    ultimately show ?thesis
      by (simp add: parse_line_def line_update_def name_of_line_def int_of_line_def
          prefixes_apart field_int_colon try_assign_int split: sum.splits)
  next
    case lv
    moreover from lv have "CHR '':'' \<in> set ?s" using colon_key[of ?s "''Levl''"] by simp
    ultimately show ?thesis
      by (simp add: parse_line_def line_update_def name_of_line_def int_of_line_def
          prefixes_apart field_int_colon try_assign_int split: sum.splits)
  next
    case ex
    show ?thesis
    proof (cases "CHR '':'' \<in> set ?s")
      case True
      with ex show ?thesis
        by (simp add: parse_line_def line_update_def name_of_line_def int_of_line_def
            prefixes_apart field_int_colon try_assign_int split: sum.splits)
    next
      case False
      with ex show ?thesis
        by (simp add: parse_line_def line_update_def name_of_line_def int_of_line_def
            prefixes_apart field_int_no_colon try_assign_def)
    qed
  next
    case gd
    moreover from gd have "CHR '':'' \<in> set ?s" using colon_key[of ?s "''Gold''"] by simp
    ultimately show ?thesis
      by (simp add: parse_line_def line_update_def name_of_line_def int_of_line_def
          prefixes_apart field_int_colon try_assign_int split: sum.splits)
  next
    case no
    then show ?thesis
      by (simp add: parse_line_def line_update_def name_of_line_def int_of_line_def)
  qed
qed

lemma last_value_Cons:
  "last_value dflt (List.map_filter f (l # ls)) =
     last_value (case f l of Some v \<Rightarrow> v | None \<Rightarrow> dflt) (List.map_filter f ls)"
  by (simp add: last_value_def split: option.splits)

lemma lines_record_Nil: "lines_record lim d [] = d"
  by (cases d) (simp add: lines_record_def last_value_def)

lemma lines_record_Cons:
  "lines_record lim d (l # ls) = lines_record lim (line_update lim d l) ls"
  by (simp add: lines_record_def last_value_Cons line_update_def del: map_filter_simps)

text \<open>The loop over the lines never raises: each field ends at its last value.\<close>

lemma parse_lines_record: "parse_lines lim d ls = Inr (lines_record lim d ls)"
proof (induction ls arbitrary: d)
  case Nil
  show ?case by (simp add: lines_record_Nil)
next
  case (Cons l ls)
  have "parse_lines lim d (l # ls) = parse_lines lim (line_update lim d l) ls"
    by (simp add: parse_line_update)
  also have "\<dots> = Inr (lines_record lim (line_update lim d l) ls)"
    by (rule Cons.IH)
  finally show ?case by (simp add: lines_record_Cons)
qed

lemma parse_content_record:
  "parse_content lim c = Inr (if name (lines_record lim init_data (splitlines c)) = [] then None
     else Some (lines_record lim init_data (splitlines c)))"
  by (simp add: parse_content_def parse_lines_record)

lemma lines_record_append:
  "lines_record lim d (xs @ ys) = lines_record lim (lines_record lim d xs) ys"
proof (induction xs arbitrary: d)
  case Nil
  show ?case by (simp add: lines_record_Nil)
next
  case (Cons l xs)
  show ?case by (simp add: lines_record_Cons Cons.IH)
qed

lemma splitlines_line:
  assumes "no_linebreak l"
  shows "splitlines (l @ CHR ''\<newline>'' # rest) = l # splitlines rest"
proof -
  have nl: "is_linebreak (CHR ''\<newline>'')" by (simp add: is_linebreak_def)
  from assms have all: "\<forall>c\<in>set l. \<not> is_linebreak c"
    by (simp add: no_linebreak_def list_all_iff)
  have tw: "takeWhile (\<lambda>c. \<not> is_linebreak c) (l @ CHR ''\<newline>'' # rest) = l"
    using all nl by simp
  have dw: "dropWhile (\<lambda>c. \<not> is_linebreak c) (l @ CHR ''\<newline>'' # rest) = CHR ''\<newline>'' # rest"
    using all nl by simp
  have ab: "after_break (CHR ''\<newline>'' # rest) = rest"
    by (simp add: after_break_def)
  show ?thesis
    by (subst splitlines.simps) (simp add: tw dw ab)
qed

lemma splitlines_joinlines:
  "list_all no_linebreak ls \<Longrightarrow> splitlines (joinlines ls) = ls"
proof (induction ls)
  case Nil
  show ?case by (simp add: joinlines_def splitlines.simps)
next
  case (Cons l ls)
  then have "no_linebreak l" and rest: "splitlines (joinlines ls) = ls" by simp_all
  then have "splitlines (l @ CHR ''\<newline>'' # joinlines ls) = l # ls"
    by (simp add: splitlines_line)
  then show ?case by (simp add: joinlines_def)
qed


section \<open>Integers and their decimal text\<close>


















section \<open>The parser: claims\<close>

lemma malformed_line_update:
  assumes key: "key = ''Clas:'' \<or> key = ''Levl:'' \<or> key = ''Exp '' \<or> key = ''Gold:''"
    and sw: "startswith (strip l) key"
    and bad: "field_int lim (strip l) = Inl e"
  shows "line_update lim d l = d"
proof -
  have nm: "name_of_line l = None"
    using key sw prefixes_apart[of "strip l"] by (auto simp: name_of_line_def)
  have iv: "int_of_line lim k l = None" for k
    using bad by (simp add: int_of_line_field_int)
  show ?thesis by (cases d) (simp add: line_update_def nm iv)
qed

text \<open>
  Claim C6. The text \<open>Name: Alice\<close> alone gives the record of name Alice with class 0 and
  level, experience and currency 0. A line of one of the four integer keys whose value is
  not an integer (\<open>int\<close> raises, or the experience line has no colon) leaves the record at
  that line as it was; taken out of a text, it leaves the outcome of the parse as it was,
  so the rest of the record is what the other lines make it. With \<open>Levl: abc\<close> between a
  name and a currency line, the level is 0 and the currency is parsed.
\<close>

theorem parse_defaults:
  "parse_content lim ''Name: Alice''
     = Inr (Some \<lparr>name = ''Alice'', class_id = 0, level = 0, xp = 0, gold = 0\<rparr>)
   \<and> parse_content lim ''Name: Alice\<newline>Levl: abc\<newline>Gold: 7''
     = Inr (Some \<lparr>name = ''Alice'', class_id = 0, level = 0, xp = 0, gold = 7\<rparr>)
   \<and> ((key = ''Clas:'' \<or> key = ''Levl:'' \<or> key = ''Exp '' \<or> key = ''Gold:'')
        \<and> startswith (strip l) key \<and> field_int lim (strip l) = Inl e
      \<longrightarrow> parse_line lim d l = Inr d
        \<and> (list_all no_linebreak (pre @ l # post)
           \<longrightarrow> parse_content lim (joinlines (pre @ l # post))
               = parse_content lim (joinlines (pre @ post))))"
proof (intro conjI impI)
  show "parse_content lim ''Name: Alice''
     = Inr (Some \<lparr>name = ''Alice'', class_id = 0, level = 0, xp = 0, gold = 0\<rparr>)"
    by (simp add: eval_defs)
  show "parse_content lim ''Name: Alice\<newline>Levl: abc\<newline>Gold: 7''
     = Inr (Some \<lparr>name = ''Alice'', class_id = 0, level = 0, xp = 0, gold = 7\<rparr>)"
    by (simp add: eval_defs)
next
  assume h: "(key = ''Clas:'' \<or> key = ''Levl:'' \<or> key = ''Exp '' \<or> key = ''Gold:'')
        \<and> startswith (strip l) key \<and> field_int lim (strip l) = Inl e"
  then have same: "line_update lim d' l = d'" for d'
    using malformed_line_update by blast
  show "parse_line lim d l = Inr d"
    by (simp add: parse_line_update same)
  assume nb: "list_all no_linebreak (pre @ l # post)"
  then have nb': "list_all no_linebreak (pre @ post)" by simp
  have "lines_record lim init_data (pre @ l # post) = lines_record lim init_data (pre @ post)"
    by (simp add: lines_record_append lines_record_Cons same)
  then show "parse_content lim (joinlines (pre @ l # post))
               = parse_content lim (joinlines (pre @ post))"
    by (simp add: parse_content_record splitlines_joinlines[OF nb] splitlines_joinlines[OF nb'])
qed

theorem parse_defaults_witness:
  "startswith (strip ''Levl: abc'') ''Levl:'' \<and> field_int 4300 (strip ''Levl: abc'') = Inl ValueError
   \<and> list_all no_linebreak ([''Name: Alice''] @ ''Levl: abc'' # [''Gold: 7''])
   \<and> parse_line 4300 init_data ''Levl: abc'' = Inr init_data
   \<and> parse_content 4300 (joinlines ([''Name: Alice''] @ ''Levl: abc'' # [''Gold: 7'']))
       = parse_content 4300 (joinlines ([''Name: Alice''] @ [''Gold: 7'']))
   \<and> parse_content 4300 (joinlines ([''Name: Alice''] @ [''Gold: 7'']))
       = Inr (Some \<lparr>name = ''Alice'', class_id = 0, level = 0, xp = 0, gold = 7\<rparr>)"
proof -
  have a: "startswith (strip ''Levl: abc'') ''Levl:''"
    by (simp add: eval_defs)
  have b: "field_int 4300 (strip ''Levl: abc'') = Inl ValueError"
    by (simp add: eval_defs)
  have c: "list_all no_linebreak ([''Name: Alice''] @ ''Levl: abc'' # [''Gold: 7''])"
    by (simp add: no_linebreak_def is_linebreak_def)
  have d: "parse_content 4300 (joinlines ([''Name: Alice''] @ [''Gold: 7'']))
       = Inr (Some \<lparr>name = ''Alice'', class_id = 0, level = 0, xp = 0, gold = 7\<rparr>)"
    by (simp add: joinlines_def eval_defs)
  from parse_defaults[of 4300 "''Levl:''" "''Levl: abc''" ValueError init_data "[''Name: Alice'']" "[''Gold: 7'']"]
    a b c d show ?thesis by simp
qed

text \<open>
  Claim C10. A text gives no record when the value of its last name line is empty (or it
  has no name line); otherwise the record has the value of the last name line as its
  name, and each integer field is the integer of the last line of its key that carries
  one, 0 when there is none. So a later integer replaces an earlier one, a later value
  that is no integer leaves the earlier one, a later name replaces the earlier one, and a
  later empty name discards the record.
\<close>

theorem last_occurrence_wins:
  "parse_content lim c =
     Inr (if last_value [] (List.map_filter name_of_line (splitlines c)) = [] then None
          else Some \<lparr>name = last_value [] (List.map_filter name_of_line (splitlines c)),
                 class_id = last_value 0 (List.map_filter (int_of_line lim ''Clas:'') (splitlines c)),
                 level = last_value 0 (List.map_filter (int_of_line lim ''Levl:'') (splitlines c)),
                 xp = last_value 0 (List.map_filter (int_of_line lim ''Exp '') (splitlines c)),
                 gold = last_value 0 (List.map_filter (int_of_line lim ''Gold:'') (splitlines c))\<rparr>)
   \<and> parse_content lim ''Name: Al\<newline>Levl: 5\<newline>Levl: 7''
       = Inr (Some \<lparr>name = ''Al'', class_id = 0, level = 7, xp = 0, gold = 0\<rparr>)
   \<and> parse_content lim ''Name: Al\<newline>Levl: 5\<newline>Levl: abc''
       = Inr (Some \<lparr>name = ''Al'', class_id = 0, level = 5, xp = 0, gold = 0\<rparr>)
   \<and> parse_content lim ''Name: Al\<newline>Name: Bo''
       = Inr (Some \<lparr>name = ''Bo'', class_id = 0, level = 0, xp = 0, gold = 0\<rparr>)
   \<and> parse_content lim ''Name: Al\<newline>Levl: 5\<newline>Name:'' = Inr None"
proof (intro conjI)
  show "parse_content lim c =
     Inr (if last_value [] (List.map_filter name_of_line (splitlines c)) = [] then None
          else Some \<lparr>name = last_value [] (List.map_filter name_of_line (splitlines c)),
                 class_id = last_value 0 (List.map_filter (int_of_line lim ''Clas:'') (splitlines c)),
                 level = last_value 0 (List.map_filter (int_of_line lim ''Levl:'') (splitlines c)),
                 xp = last_value 0 (List.map_filter (int_of_line lim ''Exp '') (splitlines c)),
                 gold = last_value 0 (List.map_filter (int_of_line lim ''Gold:'') (splitlines c))\<rparr>)"
    by (simp add: parse_content_record lines_record_def init_data_def)
qed (simp_all add: eval_defs)






text \<open>
  Claim C4. A line stands for the experience exactly when, trimmed, it starts with \<open>Exp\<close>
  and a space: any other line leaves the experience as it was, and such a line does
  nothing but set the experience, to the integer after its first colon when there is
  one. So \<open>Exp : 1234\<close>, also with spaces around it, gives the experience 1234, and
  \<open>Exp: 1234\<close> leaves it at 0.
\<close>

theorem exp_recognition:
  "(\<not> startswith (strip l) ''Exp '' \<longrightarrow> (\<exists>d'. parse_line lim d l = Inr d' \<and> xp d' = xp d))
   \<and> (startswith (strip l) ''Exp '' \<longrightarrow>
        parse_line lim d l
          = Inr (case field_int lim (strip l) of Inr n \<Rightarrow> d\<lparr>xp := n\<rparr> | Inl e \<Rightarrow> d))
   \<and> parse_content lim ''Name: Al\<newline>Exp : 1234''
       = Inr (Some \<lparr>name = ''Al'', class_id = 0, level = 0, xp = 1234, gold = 0\<rparr>)
   \<and> parse_content lim ''Name: Al\<newline>   Exp : 1234  ''
       = Inr (Some \<lparr>name = ''Al'', class_id = 0, level = 0, xp = 1234, gold = 0\<rparr>)
   \<and> parse_content lim ''Name: Al\<newline>Exp: 1234''
       = Inr (Some \<lparr>name = ''Al'', class_id = 0, level = 0, xp = 0, gold = 0\<rparr>)"
proof (intro conjI impI)
  assume "\<not> startswith (strip l) ''Exp ''"
  then have "xp (line_update lim d l) = xp d"
    by (simp add: line_update_def int_of_line_def)
  then show "\<exists>d'. parse_line lim d l = Inr d' \<and> xp d' = xp d"
    by (simp add: parse_line_update)
next
  assume sw: "startswith (strip l) ''Exp ''"
  have nm: "name_of_line l = None"
    using sw prefixes_apart(3)[of "strip l"] by (auto simp: name_of_line_def)
  have others: "\<not> startswith (strip l) ''Clas:''" "\<not> startswith (strip l) ''Levl:''"
    "\<not> startswith (strip l) ''Gold:''"
    using sw prefixes_apart(6,8,10)[of "strip l"] by auto
  have "line_update lim d l
      = (case field_int lim (strip l) of Inr n \<Rightarrow> d\<lparr>xp := n\<rparr> | Inl e \<Rightarrow> d)"
    by (cases d) (simp add: line_update_def nm others int_of_line_field_int sw split: sum.splits)
  then show "parse_line lim d l
      = Inr (case field_int lim (strip l) of Inr n \<Rightarrow> d\<lparr>xp := n\<rparr> | Inl e \<Rightarrow> d)"
    by (simp add: parse_line_update)
qed (simp_all add: eval_defs)

theorem exp_recognition_witness:
  "\<not> startswith (strip ''Exp: 1234'') ''Exp '' \<and> startswith (strip ''  Exp : 1234 '') ''Exp ''
   \<and> (\<exists>d'. parse_line 4300 init_data ''Exp: 1234'' = Inr d' \<and> xp d' = xp init_data)
   \<and> parse_line 4300 init_data ''  Exp : 1234 '' = Inr (init_data\<lparr>xp := 1234\<rparr>)"
proof -
  have a: "\<not> startswith (strip ''Exp: 1234'') ''Exp ''" by (simp add: eval_defs)
  have b: "startswith (strip ''  Exp : 1234 '') ''Exp ''" by (simp add: eval_defs)
  have c: "field_int 4300 (strip ''  Exp : 1234 '') = Inr 1234" by (simp add: eval_defs)
  from exp_recognition[of "''Exp: 1234''" 4300 init_data] a
  have 1: "\<exists>d'. parse_line 4300 init_data ''Exp: 1234'' = Inr d' \<and> xp d' = xp init_data"
    by blast
  from exp_recognition[of "''  Exp : 1234 ''" 4300 init_data] b c
  have 2: "parse_line 4300 init_data ''  Exp : 1234 '' = Inr (init_data\<lparr>xp := 1234\<rparr>)"
    by simp
  from a b 1 2 show ?thesis by blast
qed

text \<open>
  Claim C5, as the code has it. The parser never raises. It gives no record exactly when
  the text has no name line or the value of its last name line is empty; when the last
  name line has a value, it gives a record of that name, whatever the other lines are.
\<close>

theorem no_record_iff_last_name_empty:
  "(parse_content lim c = Inr None
      \<longleftrightarrow> last_value [] (List.map_filter name_of_line (splitlines c)) = [])
   \<and> (last_value [] (List.map_filter name_of_line (splitlines c)) \<noteq> [] \<longrightarrow>
        (\<exists>p. parse_content lim c = Inr (Some p)
           \<and> name p = last_value [] (List.map_filter name_of_line (splitlines c))))"
  by (simp add: parse_content_record lines_record_def init_data_def)

theorem no_record_iff_last_name_empty_witness:
  "last_value [] (List.map_filter name_of_line (splitlines ''Name: Bob\<newline>Gold: x'')) \<noteq> []
   \<and> (\<exists>p. parse_content 4300 ''Name: Bob\<newline>Gold: x'' = Inr (Some p) \<and> name p = ''Bob'')
   \<and> last_value [] (List.map_filter name_of_line (splitlines ''Gold: 5'')) = []
   \<and> parse_content 4300 ''Gold: 5'' = Inr None"
proof -
  have a: "last_value [] (List.map_filter name_of_line (splitlines ''Name: Bob\<newline>Gold: x'')) = ''Bob''"
    by (simp add: last_value_def name_of_line_def line_value_def eval_defs)
  have b: "last_value [] (List.map_filter name_of_line (splitlines ''Gold: 5'')) = []"
    by (simp add: last_value_def name_of_line_def line_value_def eval_defs)
  from no_record_iff_last_name_empty[of 4300 "''Name: Bob\<newline>Gold: x''"] a
  have 1: "\<exists>p. parse_content 4300 ''Name: Bob\<newline>Gold: x'' = Inr (Some p) \<and> name p = ''Bob''"
    by simp
  from no_record_iff_last_name_empty[of 4300 "''Gold: 5''"] b
  have 2: "parse_content 4300 ''Gold: 5'' = Inr None" by simp
  from a b 1 2 show ?thesis by simp
qed

text \<open>
  The claim as it was stated fails: a text with the name line \<open>Name: Bob\<close>, whose value is
  not empty, gives no record when a later name line has an empty value.
\<close>

theorem earlier_name_discarded:
  "splitlines ''Name: Bob\<newline>Name:'' = [''Name: Bob'', ''Name:'']
   \<and> name_of_line ''Name: Bob'' = Some ''Bob''
   \<and> parse_content 4300 ''Name: Bob\<newline>Name:'' = Inr None"
  by (simp add: name_of_line_def line_value_def eval_defs)

text \<open>
  Claim C2, as the code has it. Every record of the parser has a name that is not empty,
  and its level, experience and currency are integers, each of them 0 when no line of
  its key carries an integer. Nothing keeps them from being negative.
\<close>

theorem record_invariant:
  assumes "parse_content lim c = Inr (Some p)"
  shows "name p \<noteq> []
    \<and> (List.map_filter (int_of_line lim ''Levl:'') (splitlines c) = [] \<longrightarrow> level p = 0)
    \<and> (List.map_filter (int_of_line lim ''Exp '') (splitlines c) = [] \<longrightarrow> xp p = 0)
    \<and> (List.map_filter (int_of_line lim ''Gold:'') (splitlines c) = [] \<longrightarrow> gold p = 0)"
proof -
  let ?r = "lines_record lim init_data (splitlines c)"
  from assms have ne: "name ?r \<noteq> []" and p: "p = ?r"
    by (simp_all add: parse_content_record split: if_splits)
  show ?thesis
    unfolding p using ne by (simp add: lines_record_def last_value_def init_data_def)
qed

theorem record_invariant_witness:
  "parse_content 4300 ''Name: Al\<newline>Levl: abc\<newline>Gold: 7''
     = Inr (Some \<lparr>name = ''Al'', class_id = 0, level = 0, xp = 0, gold = 7\<rparr>)
   \<and> List.map_filter (int_of_line 4300 ''Levl:'') (splitlines ''Name: Al\<newline>Levl: abc\<newline>Gold: 7'') = []
   \<and> List.map_filter (int_of_line 4300 ''Exp '') (splitlines ''Name: Al\<newline>Levl: abc\<newline>Gold: 7'') = []
   \<and> name \<lparr>name = ''Al'', class_id = 0, level = 0, xp = 0, gold = 7\<rparr> \<noteq> []
   \<and> level \<lparr>name = ''Al'', class_id = 0, level = 0, xp = 0, gold = 7\<rparr> = 0
   \<and> xp \<lparr>name = ''Al'', class_id = 0, level = 0, xp = 0, gold = 7\<rparr> = 0"
proof -
  have a: "parse_content 4300 ''Name: Al\<newline>Levl: abc\<newline>Gold: 7''
     = Inr (Some \<lparr>name = ''Al'', class_id = 0, level = 0, xp = 0, gold = 7\<rparr>)"
    by (simp add: eval_defs)
  have b: "List.map_filter (int_of_line 4300 ''Levl:'') (splitlines ''Name: Al\<newline>Levl: abc\<newline>Gold: 7'') = []"
    by (simp add: int_of_line_def line_value_def eval_defs)
  have c: "List.map_filter (int_of_line 4300 ''Exp '') (splitlines ''Name: Al\<newline>Levl: abc\<newline>Gold: 7'') = []"
    by (simp add: int_of_line_def line_value_def eval_defs)
  from record_invariant[OF a] a b c show ?thesis by simp
qed

text \<open>The claim as it was stated fails: \<open>int\<close> reads a sign, so \<open>Levl: -5\<close> gives the level -5.\<close>

theorem negative_level:
  "parse_content 4300 ''Name: Al\<newline>Levl: -5''
     = Inr (Some \<lparr>name = ''Al'', class_id = 0, level = - 5, xp = 0, gold = 0\<rparr>)"
  by (simp add: eval_defs)

section \<open>The class catalogue: claims\<close>

lemma dict_get_in: "dict_get d k v \<in> set (v # map snd d)"
  by (auto simp: dict_get_def split: option.splits dest!: map_of_SomeD intro: rev_image_eqI)

lemma clas9: "parse_line lim d ''Clas: 9'' = Inr (d\<lparr>class_id := 9\<rparr>)"
  by (simp add: eval_defs)

text \<open>
  Claim C9. For a class code outside 0 to 3 the name of the class is \<open>Unknown\<close> and its
  icon is the question mark. The two lookups are total: they give an entry of the
  catalogue or the fallback, for every integer. A text with \<open>Clas: 9\<close> after its name
  gives a record, of class 9 and so of class name \<open>Unknown\<close>; and adding the line
  \<open>Clas: 9\<close> at the end of any text that gives a record gives the same record with the
  class 9.
\<close>

theorem unknown_class_fallback:
  "(\<not> (0 \<le> class_id p \<and> class_id p \<le> 3) \<longrightarrow>
       class_name p = ''Unknown'' \<and> class_icon p = [0x2753])
   \<and> class_name p \<in> set (''Unknown'' # map snd CLASS_NAMES)
   \<and> class_icon p \<in> set ([0x2753] # map snd CLASS_ICONS)
   \<and> parse_content lim ''Name: Zed\<newline>Clas: 9''
       = Inr (Some \<lparr>name = ''Zed'', class_id = 9, level = 0, xp = 0, gold = 0\<rparr>)
   \<and> class_name \<lparr>name = ''Zed'', class_id = 9, level = 0, xp = 0, gold = 0\<rparr> = ''Unknown''
   \<and> (list_all no_linebreak ls \<and> parse_content lim (joinlines ls) = Inr (Some q) \<longrightarrow>
        parse_content lim (joinlines (ls @ [''Clas: 9''])) = Inr (Some (q\<lparr>class_id := 9\<rparr>)))"
proof (intro conjI impI)
  assume out: "\<not> (0 \<le> class_id p \<and> class_id p \<le> 3)"
  then show "class_name p = ''Unknown''"
    by (auto simp: class_name_def dict_get_def CLASS_NAMES_def)
  from out show "class_icon p = [0x2753]"
    by (auto simp: class_icon_def dict_get_def CLASS_ICONS_def)
next
  show "class_name p \<in> set (''Unknown'' # map snd CLASS_NAMES)"
    unfolding class_name_def by (rule dict_get_in)
  show "class_icon p \<in> set ([0x2753] # map snd CLASS_ICONS)"
    unfolding class_icon_def by (rule dict_get_in)
  show "parse_content lim ''Name: Zed\<newline>Clas: 9''
       = Inr (Some \<lparr>name = ''Zed'', class_id = 9, level = 0, xp = 0, gold = 0\<rparr>)"
    by (simp add: eval_defs)
  show "class_name \<lparr>name = ''Zed'', class_id = 9, level = 0, xp = 0, gold = 0\<rparr> = ''Unknown''"
    by (simp add: class_name_def dict_get_def CLASS_NAMES_def)
next
  assume h: "list_all no_linebreak ls \<and> parse_content lim (joinlines ls) = Inr (Some q)"
  then have nb: "list_all no_linebreak ls" by simp
  have nb': "list_all no_linebreak (ls @ [''Clas: 9''])"
    using nb by (simp add: no_linebreak_def is_linebreak_def)
  let ?r = "lines_record lim init_data ls"
  from h have q: "q = ?r" and ne: "name ?r \<noteq> []"
    by (simp_all add: parse_content_record splitlines_joinlines[OF nb] split: if_splits)
  have upd: "line_update lim d ''Clas: 9'' = d\<lparr>class_id := 9\<rparr>" for d
    using clas9[of lim d] by (simp add: parse_line_update)
  have "lines_record lim init_data (ls @ [''Clas: 9'']) = ?r\<lparr>class_id := 9\<rparr>"
    by (simp add: lines_record_append lines_record_Cons lines_record_Nil upd)
  then show "parse_content lim (joinlines (ls @ [''Clas: 9''])) = Inr (Some (q\<lparr>class_id := 9\<rparr>))"
    using ne by (simp add: parse_content_record splitlines_joinlines[OF nb'] q)
qed

theorem unknown_class_fallback_witness:
  "\<not> (0 \<le> class_id \<lparr>name = ''Zed'', class_id = 9, level = 0, xp = 0, gold = 0\<rparr>
       \<and> class_id \<lparr>name = ''Zed'', class_id = 9, level = 0, xp = 0, gold = 0\<rparr> \<le> 3)
   \<and> class_icon \<lparr>name = ''Zed'', class_id = 9, level = 0, xp = 0, gold = 0\<rparr> = [0x2753]
   \<and> list_all no_linebreak [''Name: Amy'', ''Clas: 2'']
   \<and> parse_content 4300 (joinlines [''Name: Amy'', ''Clas: 2''])
       = Inr (Some \<lparr>name = ''Amy'', class_id = 2, level = 0, xp = 0, gold = 0\<rparr>)
   \<and> parse_content 4300 (joinlines ([''Name: Amy'', ''Clas: 2''] @ [''Clas: 9'']))
       = Inr (Some \<lparr>name = ''Amy'', class_id = 9, level = 0, xp = 0, gold = 0\<rparr>)"
proof -
  let ?z = "\<lparr>name = ''Zed'', class_id = 9, level = 0, xp = 0, gold = 0\<rparr>"
  let ?a = "\<lparr>name = ''Amy'', class_id = 2, level = 0, xp = 0, gold = 0\<rparr>"
  have a: "\<not> (0 \<le> class_id ?z \<and> class_id ?z \<le> 3)" by simp
  have b: "list_all no_linebreak [''Name: Amy'', ''Clas: 2'']"
    by (simp add: no_linebreak_def is_linebreak_def)
  have c: "parse_content 4300 (joinlines [''Name: Amy'', ''Clas: 2'']) = Inr (Some ?a)"
    by (simp add: joinlines_def eval_defs)
  from unknown_class_fallback[of ?z 4300] a have 1: "class_icon ?z = [0x2753]" by blast
  from unknown_class_fallback[of ?z 4300 "[''Name: Amy'', ''Clas: 2'']" ?a] b c
  have 2: "parse_content 4300 (joinlines ([''Name: Amy'', ''Clas: 2''] @ [''Clas: 9'']))
       = Inr (Some (?a\<lparr>class_id := 9\<rparr>))" by blast
  from a b c 1 2 show ?thesis by simp
qed


section \<open>Ranking: claims\<close>










section \<open>The collector: claims\<close>

text \<open>
  The words of the specification: a file gives a record when it can be read and its text
  parses to a record; a subdirectory gives the records of its own entries that carry the
  extension, in their order; the collector gives the records of the subdirectories of
  the root, one subdirectory after the other.
\<close>

definition valid_record :: "nat \<Rightarrow> node \<Rightarrow> player option" where
  "valid_record lim f = (case read_text f of
       Inl e \<Rightarrow> None
     | Inr content \<Rightarrow> (case parse_content lim content of Inr (Some p) \<Rightarrow> Some p | _ \<Rightarrow> None))"

definition record_of_entry :: "nat \<Rightarrow> string \<times> node \<Rightarrow> player option" where
  "record_of_entry lim entry =
     (if endswith (fst entry) ''.plr'' then valid_record lim (snd entry) else None)"

definition subdir_records :: "nat \<Rightarrow> node \<Rightarrow> player list" where
  "subdir_records lim subdir = (case subdir of
       Dir entries \<Rightarrow> List.map_filter (record_of_entry lim) entries
     | File r \<Rightarrow> []
     | Locked_Dir \<Rightarrow> [])"

definition collect :: "nat \<Rightarrow> (string \<times> node) list \<Rightarrow> player list" where
  "collect lim entries = concat (map (\<lambda>entry. subdir_records lim (snd entry)) entries)"








lemma collect_append: "collect lim (xs @ ys) = collect lim xs @ collect lim ys"
  by (simp add: collect_def)




section \<open>The entry point: claims\<close>







end
